theory Spec2Isabelle
  imports Main "HOL-Library.Multiset"
begin

section \<open>The scenario generator, \<open>test_marked_cube.py\<close>\<close>

text \<open>
  Python strings of this script are ASCII literals and are modelled as \<open>string\<close>.
  An apostrophe cannot end a string literal of the logic, so it is appended as
  \<open>apos\<close>: the token \<open>R'\<close> is \<open>''R'' @ apos\<close>.
\<close>

abbreviation apos :: string where
  "apos \<equiv> [CHR 0x27]"

text \<open>
  A test case is a Python dict with string keys and string values: a map. Reading a
  key that is absent raises \<open>KeyError\<close>.
\<close>

type_synonym test_case = "string \<rightharpoonup> string"

datatype py_error = KeyError string

text \<open>The local list \<open>basic_moves\<close> of \<open>create_marked_cube_test\<close>.\<close>

definition basic_moves :: "string list" where
  "basic_moves =
     [''R'', ''R'' @ apos, ''R2'', ''L'', ''L'' @ apos, ''L2'',
      ''U'', ''U'' @ apos, ''U2'', ''D'', ''D'' @ apos, ''D2'',
      ''F'', ''F'' @ apos, ''F2'', ''B'', ''B'' @ apos, ''B2'']"

text \<open>The dict literal of the loop body, for one \<open>move\<close>; its values are f-strings.\<close>

definition marked_case :: "string \<Rightarrow> test_case" where
  "marked_case move =
     [''name'' \<mapsto> ''marked_cube_'' @ move,
      ''move'' \<mapsto> move,
      ''description'' \<mapsto> ''Apply '' @ move @ '' to marked cube to detect inversions'']"

text \<open>
  The loop of \<open>create_marked_cube_test\<close>: \<open>test_cases\<close> starts empty, and each
  move appends one dict.
\<close>

definition create_marked_cube_test :: "test_case list" where
  "create_marked_cube_test =
     fold (\<lambda>move test_cases. test_cases @ [marked_case move]) basic_moves []"

text \<open>The list literal returned by \<open>create_equivalence_tests\<close>, a list of 2-tuples.\<close>

definition create_equivalence_tests :: "(string \<times> string) list" where
  "create_equivalence_tests =
     [(''R U R'' @ apos, ''R U R'' @ apos),
      (''R R R R'', ''''),
      (''R2 R2'', ''''),
      (''R U' U R'' @ apos, ''R R'' @ apos),
      (''R U R' U'' @ apos, ''(R U R' U')''),
      (''R U R' U'' @ apos, ''U R U' R'' @ apos)]"

subsection \<open>The script body\<close>

text \<open>
  The output of the script is the list of the lines it has printed, one per call of
  \<open>print\<close>; a run ends normally (\<open>None\<close>) or with an exception, after the lines
  printed so far.
\<close>

type_synonym printed = "string list \<times> py_error option"

definition print :: "'a \<Rightarrow> 'a list \<Rightarrow> 'a list" where
  "print s out = out @ [s]"

text \<open>The body of the first loop, for one \<open>test\<close>: four calls of \<open>print\<close>.\<close>

definition show_test :: "test_case \<Rightarrow> string list \<Rightarrow> printed" where
  "show_test test out =
     (case test ''name'' of
        None \<Rightarrow> (out, Some (KeyError ''name''))
      | Some n \<Rightarrow>
          let out = print (''Test: '' @ n) out in
          (case test ''move'' of
             None \<Rightarrow> (out, Some (KeyError ''move''))
           | Some m \<Rightarrow>
               let out = print (''Move: '' @ m) out in
               (case test ''description'' of
                  None \<Rightarrow> (out, Some (KeyError ''description''))
                | Some d \<Rightarrow>
                    let out = print (''Description: '' @ d) out in
                    (print '''' out, None))))"

text \<open>The body of the second loop, for one pair.\<close>

definition show_equivalence :: "string \<times> string \<Rightarrow> string list \<Rightarrow> printed" where
  "show_equivalence p out =
     (case p of (seq1, seq2) \<Rightarrow>
        (print (apos @ seq1 @ apos @ '' should equal '' @ apos @ seq2 @ apos) out, None))"

text \<open>A \<open>for\<close> loop over a list: it stops at the first exception.\<close>

fun for_each :: "('a \<Rightarrow> string list \<Rightarrow> printed) \<Rightarrow> 'a list \<Rightarrow> string list \<Rightarrow> printed" where
  "for_each body [] out = (out, None)"
| "for_each body (x # xs) out =
     (case body x out of
        (out', None) \<Rightarrow> for_each body xs out'
      | (out', Some e) \<Rightarrow> (out', Some e))"

text \<open>The block under \<open>if __name__ == "__main__"\<close>. The slice \<open>[:5]\<close> is \<open>take 5\<close>.\<close>

definition main_output :: printed where
  "main_output =
     (let out = print ''=== Marked Cube Tests ==='' [] in
      case for_each show_test (take 5 create_marked_cube_test) out of
        (out, Some e) \<Rightarrow> (out, Some e)
      | (out, None) \<Rightarrow>
          let out = print ''=== Equivalence Tests ==='' out in
          (case for_each show_equivalence create_equivalence_tests out of
             (out, Some e) \<Rightarrow> (out, Some e)
           | (out, None) \<Rightarrow>
               let out = print '''' out in
               (print ''Run these tests to find subtle inversion bugs!'' out, None)))"

subsection \<open>The two generators as calls on a store of list objects\<close>

text \<open>
  A Python list is a mutable object: \<open>test_cases = []\<close> creates one, \<open>append\<close> changes it
  in place, \<open>return\<close> hands out a reference to it. The store holds the list objects in
  the order of their creation, and a reference is an index into the store. A call takes
  the store it finds and returns the reference together with the store it leaves.
\<close>

type_synonym 'a store = "'a list list"

definition new_list :: "'a list \<Rightarrow> 'a store \<Rightarrow> nat \<times> 'a store" where
  "new_list xs st = (length st, st @ [xs])"

definition list_append :: "nat \<Rightarrow> 'a \<Rightarrow> 'a store \<Rightarrow> 'a store" where
  "list_append r x st = (if r < length st then st[r := st ! r @ [x]] else st)"

definition list_at :: "'a store \<Rightarrow> nat \<Rightarrow> 'a list option" where
  "list_at st r = (if r < length st then Some (st ! r) else None)"

definition call_create_marked_cube_test :: "test_case store \<Rightarrow> nat \<times> test_case store" where
  "call_create_marked_cube_test st =
     (case new_list [] st of
        (test_cases, st1) \<Rightarrow>
          (test_cases,
           fold (\<lambda>move st2. list_append test_cases (marked_case move) st2) basic_moves st1))"

definition call_create_equivalence_tests ::
  "(string \<times> string) store \<Rightarrow> nat \<times> (string \<times> string) store" where
  "call_create_equivalence_tests st = new_list create_equivalence_tests st"

subsection \<open>The input notation for move sequences\<close>

text \<open>
  The sequence executor that reads move sequences is not in the sources; its input
  notation is taken from the specification: tokens separated by whitespace (runs of
  whitespace giving no empty token), each token a face letter from \<open>U D L R F B\<close>,
  alone or followed by an apostrophe or by \<open>2\<close>.
\<close>

text \<open>Modelled from the spec: the whitespace that separates tokens (ASCII whitespace).\<close>

definition is_whitespace :: "char \<Rightarrow> bool" where
  "is_whitespace c = (c \<in> set [CHR '' '', CHR 0x09, CHR 0x0A, CHR 0x0B, CHR 0x0C, CHR 0x0D])"

text \<open>Modelled from the spec: tokenizing on whitespace, \<open>cur\<close> being the token read so far.\<close>

fun split_from :: "string \<Rightarrow> string \<Rightarrow> string list" where
  "split_from cur [] = (if cur = [] then [] else [cur])"
| "split_from cur (c # cs) =
     (if is_whitespace c
      then (if cur = [] then split_from [] cs else cur # split_from [] cs)
      else split_from (cur @ [c]) cs)"

text \<open>Modelled from the spec: the tokens of a sequence string.\<close>

definition split :: "string \<Rightarrow> string list" where
  "split s = split_from [] s"

text \<open>Modelled from the spec: the six face letters.\<close>

definition is_face_letter :: "char \<Rightarrow> bool" where
  "is_face_letter c = (c \<in> set ''UDLRFB'')"

text \<open>Modelled from the spec: the grammar of a token, a face letter with an optional \<open>'\<close> or \<open>2\<close>.\<close>

fun valid_token :: "string \<Rightarrow> bool" where
  "valid_token [f] = is_face_letter f"
| "valid_token [f, m] = (is_face_letter f \<and> (m = CHR 0x27 \<or> m = CHR ''2''))"
| "valid_token _ = False"

text \<open>Modelled from the spec: a sequence string is well formed when each of its tokens is.\<close>

definition well_formed :: "string \<Rightarrow> bool" where
  "well_formed s = list_all valid_token (split s)"

text \<open>All the sequence strings of the pairs, first and second of each pair in turn.\<close>

definition sequences_of :: "(string \<times> string) list \<Rightarrow> string list" where
  "sequences_of ps = concat (map (\<lambda>p. [fst p, snd p]) ps)"

text \<open>The list a call has returned: the object its reference names in the store it left.\<close>

definition returned :: "nat \<times> 'a store \<Rightarrow> 'a list option" where
  "returned res = list_at (snd res) (fst res)"

section \<open>The order scraper, \<open>parse_orders.py\<close>\<close>

text \<open>
  The text of a web page is Unicode: a Python \<open>str\<close> is a list of code points, given
  here as natural numbers, and a literal of the script is the list of the codes of
  its ASCII characters. The tables of the Unicode database that \<open>str.strip\<close> and
  \<open>str.isdigit\<close> consult are not part of the script: the predicates \<open>space\<close> (the code
  point is whitespace) and \<open>digit\<close> (the code point is a digit) are parameters.
\<close>

type_synonym pystr = "nat list"

definition lit :: "string \<Rightarrow> pystr" where
  "lit s = map of_char s"

definition strip :: "(nat \<Rightarrow> bool) \<Rightarrow> pystr \<Rightarrow> pystr" where
  "strip space s = rev (dropWhile space (rev (dropWhile space s)))"

definition isdigit :: "(nat \<Rightarrow> bool) \<Rightarrow> pystr \<Rightarrow> bool" where
  "isdigit digit s = (s \<noteq> [] \<and> list_all digit s)"

text \<open>
  The parsed page, as the script reads it through BeautifulSoup: a tree whose nodes
  are text strings and tags with a name and children. \<open>find_all\<close> gives the
  descendants with a tag name, in document order; \<open>find\<close> gives the first of them or
  \<open>None\<close>; \<open>get_text(strip=True)\<close> strips every text string below a node, drops those
  that become empty and joins the others.
\<close>

datatype node = Text pystr | Tag string "node list"

fun descendants :: "node \<Rightarrow> node list" where
  "descendants (Text s) = []"
| "descendants (Tag name children) = concat (map (\<lambda>c. c # descendants c) children)"

fun has_name :: "string \<Rightarrow> node \<Rightarrow> bool" where
  "has_name name (Text s) = False"
| "has_name name (Tag name' children) = (name' = name)"

definition find_all :: "node \<Rightarrow> string \<Rightarrow> node list" where
  "find_all n name = filter (has_name name) (descendants n)"

definition find_tag :: "node \<Rightarrow> string \<Rightarrow> node option" where
  "find_tag n name = (case find_all n name of [] \<Rightarrow> None | t # ts \<Rightarrow> Some t)"

fun strings :: "node \<Rightarrow> pystr list" where
  "strings (Text s) = [s]"
| "strings (Tag name children) = concat (map strings children)"

definition get_text :: "(nat \<Rightarrow> bool) \<Rightarrow> node \<Rightarrow> pystr" where
  "get_text space n = concat (filter (\<lambda>s. s \<noteq> []) (map (strip space) (strings n)))"

text \<open>The body of the loop over the rows, for one \<open>row\<close>.\<close>

definition row_step :: "(nat \<Rightarrow> bool) \<Rightarrow> (nat \<Rightarrow> bool) \<Rightarrow> node \<Rightarrow> pystr list \<Rightarrow> pystr list" where
  "row_step space digit row out =
     (let cells = find_all row ''td'' in
      if 3 \<le> length cells then
        (let order = get_text space (cells ! 0);
             sequence_3x3 = get_text space (cells ! 2)
         in if order \<noteq> [] \<and> sequence_3x3 \<noteq> [] \<and> isdigit digit order
            then print (order @ lit [CHR 0x09] @ sequence_3x3) out
            else out)
      else out)"

text \<open>
  The script, from the parsed page \<open>soup\<close> on: the lines it prints and its exit
  status, 1 after \<open>exit(1)\<close> and 0 when it runs to its end.
\<close>

definition parse_orders :: "(nat \<Rightarrow> bool) \<Rightarrow> (nat \<Rightarrow> bool) \<Rightarrow> node \<Rightarrow> pystr list \<times> int" where
  "parse_orders space digit soup =
     (case find_tag soup ''table'' of
        None \<Rightarrow> (print (lit ''No table found!'') [], 1)
      | Some table \<Rightarrow>
          (let rows = find_all table ''tr'';
               out = print (lit (''Order'' @ [CHR 0x09] @ ''3x3x3 Sequence'')) [];
               out = print (lit (''-----'' @ [CHR 0x09] @ ''--------------'')) out
           in (fold (row_step space digit) (drop 1 rows) out, 0)))"

text \<open>
  The data line of a row as the scraper is described: a row has a line when it has at
  least three cells, the stripped text of the first is not empty and all digits, and
  the stripped text of the third is not empty; the line is the first text, a tab and
  the third text.
\<close>

definition cell_text :: "(nat \<Rightarrow> bool) \<Rightarrow> node \<Rightarrow> nat \<Rightarrow> pystr" where
  "cell_text space row i = get_text space (find_all row ''td'' ! i)"

definition has_data_line :: "(nat \<Rightarrow> bool) \<Rightarrow> (nat \<Rightarrow> bool) \<Rightarrow> node \<Rightarrow> bool" where
  "has_data_line space digit row =
     (3 \<le> length (find_all row ''td'') \<and>
      cell_text space row 0 \<noteq> [] \<and> list_all digit (cell_text space row 0) \<and>
      cell_text space row 2 \<noteq> [])"

definition data_lines :: "(nat \<Rightarrow> bool) \<Rightarrow> (nat \<Rightarrow> bool) \<Rightarrow> node \<Rightarrow> pystr list" where
  "data_lines space digit row =
     (if has_data_line space digit row
      then [cell_text space row 0 @ [9] @ cell_text space row 2]
      else [])"

text \<open>ASCII whitespace and ASCII digits, for running the scraper on an example page.\<close>

definition ascii_space :: "nat \<Rightarrow> bool" where
  "ascii_space c = (c \<in> set [9, 10, 11, 12, 13, 32])"

definition ascii_digit :: "nat \<Rightarrow> bool" where
  "ascii_digit c = (48 \<le> c \<and> c \<le> 57)"

text \<open>
  An example page: a heading, then a table with a header row and five more rows, of
  which the first and the last have a data line (the second has two cells, the third
  an order that is not a number, the fourth a blank third cell).
\<close>

definition td :: "string \<Rightarrow> node" where
  "td s = Tag ''td'' [Text (lit s)]"

definition example_table :: node where
  "example_table =
     Tag ''table''
       [Tag ''tr'' [Tag ''th'' [Text (lit ''Order'')], Tag ''th'' [Text (lit ''2x2x2'')],
                    Tag ''th'' [Text (lit ''3x3x3'')]],
        Tag ''tr'' [td '' 6 '', td ''x'',
                    Tag ''td'' [Text (lit '' R ''), Tag ''b'' [Text (lit '' U '')]]],
        Tag ''tr'' [td ''12'', td ''y''],
        Tag ''tr'' [td ''n/a'', td ''y'', td ''R U''],
        Tag ''tr'' [td ''63'', td ''y'', td ''  ''],
        Tag ''tr'' [td ''1260'', td '''', td ''R U2 D' B D' '']]"

definition example_page :: node where
  "example_page =
     Tag ''[document]''
       [Tag ''html'' [Tag ''body'' [Tag ''h1'' [Text (lit ''Orders'')], example_table]]]"

definition page_without_table :: node where
  "page_without_table =
     Tag ''[document]'' [Tag ''html'' [Tag ''body'' [Tag ''p'' [Text (lit ''moved'')]]]]"

section \<open>The move engine of the specification\<close>

text \<open>
  The repository holds no move engine: the scenario generator only names the moves.
  The definitions of this section follow the specification of the engine.
\<close>

text \<open>Modelled from the spec: the six faces. The engine itself is missing from the sources.\<close>

datatype face = Up | Down | Front | Back | Left | Right

text \<open>Modelled from the spec: the three values of a row or column index, 0 to 2.\<close>

datatype pos = P0 | P1 | P2

text \<open>
  Modelled from the spec: a slot is a (face, row, column) coordinate, so there are 54
  slots and no coordinate out of range can be formed.
\<close>

type_synonym slot = "face \<times> pos \<times> pos"

text \<open>
  Modelled from the spec: a cube state holds one sticker identity in each slot;
  identities are of any type that can be compared.
\<close>

type_synonym 'a cube = "slot \<Rightarrow> 'a"

text \<open>Modelled from the spec: the 54 coordinates in a stable order.\<close>

definition all_slots :: "slot list" where
  "all_slots =
     concat (map (\<lambda>f. concat (map (\<lambda>r. map (\<lambda>c. (f, r, c)) [P0, P1, P2]) [P0, P1, P2]))
       [Up, Down, Front, Back, Left, Right])"

text \<open>Modelled from the spec: the letter of a face.\<close>

fun face_letter :: "face \<Rightarrow> char" where
  "face_letter Up = CHR ''U''"
| "face_letter Down = CHR ''D''"
| "face_letter Front = CHR ''F''"
| "face_letter Back = CHR ''B''"
| "face_letter Left = CHR ''L''"
| "face_letter Right = CHR ''R''"

text \<open>Modelled from the spec: the digit of a row or column index.\<close>

fun pos_digit :: "pos \<Rightarrow> char" where
  "pos_digit P0 = CHR ''0''"
| "pos_digit P1 = CHR ''1''"
| "pos_digit P2 = CHR ''2''"

text \<open>
  Modelled from the spec: the solved reference state in marked mode, the identity of
  a slot being the token of its face letter, row and column.
\<close>

fun solved_marked :: "string cube" where
  "solved_marked (f, r, c) = [face_letter f, pos_digit r, pos_digit c]"

text \<open>
  Modelled from the spec: two states are equivalent when every one of the 54 slots
  holds the same identity in both.
\<close>

definition equivalent :: "'a cube \<Rightarrow> 'a cube \<Rightarrow> bool" where
  "equivalent s t = list_all (\<lambda>c. s c = t c) all_slots"

text \<open>Modelled from the spec: the multiset of the 54 sticker identities of a state.\<close>

definition identities :: "'a cube \<Rightarrow> 'a multiset" where
  "identities s = mset (map s all_slots)"

text \<open>
  Modelled from the spec: a 4-cycle of stickers. The sticker of slot \<open>a\<close> moves to
  \<open>b\<close>, that of \<open>b\<close> to \<open>c\<close>, that of \<open>c\<close> to \<open>d\<close> and that of \<open>d\<close> to \<open>a\<close>.
\<close>

definition cycle4 :: "slot \<Rightarrow> slot \<Rightarrow> slot \<Rightarrow> slot \<Rightarrow> 'a cube \<Rightarrow> 'a cube" where
  "cycle4 a b c d s = s(b := s a, c := s b, d := s c, a := s d)"

text \<open>
  Modelled from the spec: step 1 of a clockwise quarter turn of face \<open>f\<close>. The corners
  of the face cycle in a 4-cycle, the corner at (0,0) moving to (0,2); its edges cycle
  in a 4-cycle; its centre stays.
\<close>

definition rotate_face :: "face \<Rightarrow> 'a cube \<Rightarrow> 'a cube" where
  "rotate_face f s =
     cycle4 (f, P0, P1) (f, P1, P2) (f, P2, P1) (f, P1, P0)
       (cycle4 (f, P0, P0) (f, P0, P2) (f, P2, P2) (f, P2, P0) s)"

text \<open>Modelled from the spec: an edge triplet, three slots of one face.\<close>

type_synonym triplet = "slot \<times> slot \<times> slot"

text \<open>
  Modelled from the spec: the adjacency table gives, for each face, the ordered list
  of the four edge triplets of its layer on the adjacent faces. The contents of the
  table are left open by the specification, so the table is a parameter of the
  engine.
\<close>

type_synonym adjacency = "face \<Rightarrow> triplet \<times> triplet \<times> triplet \<times> triplet"

text \<open>
  Modelled from the spec: step 2 of a clockwise quarter turn. The twelve stickers of
  the four triplets cycle among the four faces, each triplet moving to the next one.
\<close>

fun cycle_triplets :: "triplet \<times> triplet \<times> triplet \<times> triplet \<Rightarrow> 'a cube \<Rightarrow> 'a cube" where
  "cycle_triplets ((a1, a2, a3), (b1, b2, b3), (c1, c2, c3), (d1, d2, d3)) s =
     cycle4 a3 b3 c3 d3 (cycle4 a2 b2 c2 d2 (cycle4 a1 b1 c1 d1 s))"

text \<open>Modelled from the spec: the clockwise quarter turn of a face.\<close>

definition turn_cw :: "adjacency \<Rightarrow> face \<Rightarrow> 'a cube \<Rightarrow> 'a cube" where
  "turn_cw adj f s = cycle_triplets (adj f) (rotate_face f s)"

text \<open>
  Modelled from the spec: step 1 of a counter-clockwise quarter turn, the cycles of
  \<open>rotate_face\<close> in the other direction.
\<close>

definition rotate_face_ccw :: "face \<Rightarrow> 'a cube \<Rightarrow> 'a cube" where
  "rotate_face_ccw f s =
     cycle4 (f, P1, P0) (f, P2, P1) (f, P1, P2) (f, P0, P1)
       (cycle4 (f, P2, P0) (f, P2, P2) (f, P0, P2) (f, P0, P0) s)"

text \<open>
  Modelled from the spec: step 2 of a counter-clockwise quarter turn, each triplet
  moving to the one before it.
\<close>

fun cycle_triplets_ccw :: "triplet \<times> triplet \<times> triplet \<times> triplet \<Rightarrow> 'a cube \<Rightarrow> 'a cube" where
  "cycle_triplets_ccw ((a1, a2, a3), (b1, b2, b3), (c1, c2, c3), (d1, d2, d3)) s =
     cycle4 d3 c3 b3 a3 (cycle4 d2 c2 b2 a2 (cycle4 d1 c1 b1 a1 s))"

text \<open>Modelled from the spec: the counter-clockwise quarter turn of a face.\<close>

definition turn_ccw :: "adjacency \<Rightarrow> face \<Rightarrow> 'a cube \<Rightarrow> 'a cube" where
  "turn_ccw adj f s = cycle_triplets_ccw (adj f) (rotate_face_ccw f s)"

text \<open>Modelled from the spec: the three modifiers of a move.\<close>

datatype modifier = Clockwise | CounterClockwise | HalfTurn

text \<open>Modelled from the spec: a move is a face with a modifier.\<close>

type_synonym move = "face \<times> modifier"

text \<open>
  Modelled from the spec: applying one move; a half turn is two clockwise quarter
  turns.
\<close>

fun apply_move :: "adjacency \<Rightarrow> move \<Rightarrow> 'a cube \<Rightarrow> 'a cube" where
  "apply_move adj (f, Clockwise) s = turn_cw adj f s"
| "apply_move adj (f, CounterClockwise) s = turn_ccw adj f s"
| "apply_move adj (f, HalfTurn) s = turn_cw adj f (turn_cw adj f s)"

text \<open>Modelled from the spec: a sequence is applied from left to right, the first move first.\<close>

definition apply_sequence :: "adjacency \<Rightarrow> move list \<Rightarrow> 'a cube \<Rightarrow> 'a cube" where
  "apply_sequence adj ms s = fold (apply_move adj) ms s"

text \<open>Modelled from the spec: the twelve slots of a table entry.\<close>

fun layer_slots :: "triplet \<times> triplet \<times> triplet \<times> triplet \<Rightarrow> slot list" where
  "layer_slots ((a1, a2, a3), (b1, b2, b3), (c1, c2, c3), (d1, d2, d3)) =
     [a1, a2, a3, b1, b2, b3, c1, c2, c3, d1, d2, d3]"

text \<open>
  Modelled from the spec: what the specification says of the table entry of a face
  \<open>f\<close>, as far as the properties below need it. Its four triplets are twelve
  different slots, and they lie on other faces than \<open>f\<close>.
\<close>

definition adjacency_ok :: "adjacency \<Rightarrow> face \<Rightarrow> bool" where
  "adjacency_ok adj f =
     (distinct (layer_slots (adj f)) \<and> list_all (\<lambda>c. fst c \<noteq> f) (layer_slots (adj f)))"

text \<open>
  Modelled from the spec: one adjacency table, for the usual unfolding of the cube
  (Up above Front, Down below it, Left, Right and Back beside it, row 0 at the top
  and column 0 at the left of each face as unfolded), turns being clockwise seen
  from outside the face.
\<close>

fun standard_adjacency :: adjacency where
  "standard_adjacency Up =
     (((Front, P0, P0), (Front, P0, P1), (Front, P0, P2)),
      ((Left, P0, P0), (Left, P0, P1), (Left, P0, P2)),
      ((Back, P0, P0), (Back, P0, P1), (Back, P0, P2)),
      ((Right, P0, P0), (Right, P0, P1), (Right, P0, P2)))"
| "standard_adjacency Down =
     (((Front, P2, P0), (Front, P2, P1), (Front, P2, P2)),
      ((Right, P2, P0), (Right, P2, P1), (Right, P2, P2)),
      ((Back, P2, P0), (Back, P2, P1), (Back, P2, P2)),
      ((Left, P2, P0), (Left, P2, P1), (Left, P2, P2)))"
| "standard_adjacency Right =
     (((Front, P0, P2), (Front, P1, P2), (Front, P2, P2)),
      ((Up, P0, P2), (Up, P1, P2), (Up, P2, P2)),
      ((Back, P2, P0), (Back, P1, P0), (Back, P0, P0)),
      ((Down, P0, P2), (Down, P1, P2), (Down, P2, P2)))"
| "standard_adjacency Left =
     (((Up, P0, P0), (Up, P1, P0), (Up, P2, P0)),
      ((Front, P0, P0), (Front, P1, P0), (Front, P2, P0)),
      ((Down, P0, P0), (Down, P1, P0), (Down, P2, P0)),
      ((Back, P2, P2), (Back, P1, P2), (Back, P0, P2)))"
| "standard_adjacency Front =
     (((Up, P2, P0), (Up, P2, P1), (Up, P2, P2)),
      ((Right, P0, P0), (Right, P1, P0), (Right, P2, P0)),
      ((Down, P0, P2), (Down, P0, P1), (Down, P0, P0)),
      ((Left, P2, P2), (Left, P1, P2), (Left, P0, P2)))"
| "standard_adjacency Back =
     (((Up, P0, P2), (Up, P0, P1), (Up, P0, P0)),
      ((Left, P0, P0), (Left, P1, P0), (Left, P2, P0)),
      ((Down, P2, P0), (Down, P2, P1), (Down, P2, P2)),
      ((Right, P2, P2), (Right, P1, P2), (Right, P0, P2)))"

subsection \<open>Sources of stickers\<close>

text \<open>
  For the proofs: the slot from which a 4-cycle brings the sticker of slot \<open>x\<close>, and
  what it means for a map of slots to move only the slots of a set \<open>A\<close>, within
  \<open>A\<close>, and to be the identity when applied four times.
\<close>

definition source4 :: "'x \<Rightarrow> 'x \<Rightarrow> 'x \<Rightarrow> 'x \<Rightarrow> 'x \<Rightarrow> 'x" where
  "source4 a b c d x =
     (if x = a then d else if x = d then c else if x = c then b else if x = b then a else x)"

definition cyc4_on :: "'x set \<Rightarrow> ('x \<Rightarrow> 'x) \<Rightarrow> bool" where
  "cyc4_on A p = ((\<forall>x. x \<notin> A \<longrightarrow> p x = x) \<and> (\<forall>x\<in>A. p x \<in> A) \<and> (\<forall>x. p (p (p (p x))) = x))"

section \<open>Properties of the scenario generator\<close>

subsection \<open>Evaluating the loops\<close>

lemma fold_append_map: "fold (\<lambda>x acc. acc @ [f x]) xs ys = ys @ map f xs"
  by (induction xs arbitrary: ys) simp_all

lemma create_marked_cube_test_map: "create_marked_cube_test = map marked_case basic_moves"
  by (simp add: create_marked_cube_test_def fold_append_map)

lemma show_test_marked_case:
  "show_test (marked_case m) out =
     (out @ [''Test: marked_cube_'' @ m, ''Move: '' @ m,
             ''Description: Apply '' @ m @ '' to marked cube to detect inversions'', ''''],
      None)"
  by (simp add: show_test_def marked_case_def print_def)

lemma for_each_show_test:
  "for_each show_test (map marked_case ms) out =
     (out @ concat (map (\<lambda>m. [''Test: marked_cube_'' @ m, ''Move: '' @ m,
             ''Description: Apply '' @ m @ '' to marked cube to detect inversions'', ''''])
           ms),
      None)"
  by (induction ms arbitrary: out) (simp_all add: show_test_marked_case)

lemma for_each_show_equivalence:
  "for_each show_equivalence ps out =
     (out @ map (\<lambda>p. apos @ fst p @ apos @ '' should equal '' @ apos @ snd p @ apos) ps,
      None)"
  by (induction ps arbitrary: out)
     (simp_all add: show_equivalence_def print_def split: prod.splits)

lemma main_output_lines:
  "main_output =
     ([''=== Marked Cube Tests ===''] @
      concat (map (\<lambda>m. [''Test: marked_cube_'' @ m, ''Move: '' @ m,
             ''Description: Apply '' @ m @ '' to marked cube to detect inversions'', ''''])
           (take 5 basic_moves)) @
      [''=== Equivalence Tests ===''] @
      map (\<lambda>p. apos @ fst p @ apos @ '' should equal '' @ apos @ snd p @ apos)
        create_equivalence_tests @
      ['''', ''Run these tests to find subtle inversion bugs!''],
      None)"
  by (simp add: main_output_def create_marked_cube_test_map take_map for_each_show_test
       for_each_show_equivalence print_def)

lemma fold_list_append:
  "r < length st \<Longrightarrow>
   fold (\<lambda>x st'. list_append r (f x) st') xs st = st[r := st ! r @ map f xs]"
proof (induction xs arbitrary: st)
  case Nil
  then show ?case by simp
next
  case (Cons x xs)
  have "fold (\<lambda>x st'. list_append r (f x) st') (x # xs) st =
        fold (\<lambda>x st'. list_append r (f x) st') xs (st[r := st ! r @ [f x]])"
    using Cons.prems by (simp add: list_append_def)
  also have "\<dots> = (st[r := st ! r @ [f x]])[r := (st[r := st ! r @ [f x]]) ! r @ map f xs]"
    using Cons.prems by (intro Cons.IH) simp
  also have "\<dots> = st[r := st ! r @ map f (x # xs)]"
    using Cons.prems by simp
  finally show ?case .
qed

lemma call_create_marked_cube_test_eq:
  "call_create_marked_cube_test st = (length st, st @ [create_marked_cube_test])"
  by (simp add: call_create_marked_cube_test_def new_list_def fold_list_append
       create_marked_cube_test_map)

subsection \<open>The six sequence pairs and their report\<close>

text \<open>
  Claim C1, evaluated on the code. The pair \<open>("R U R' U'", "U R U' R'")\<close> is the sixth
  pair of the list, and the script reports it with the same words as every other
  pair: the line printed for it is \<open>'R U R' U'' should equal 'U R U' R''\<close>, the sixth
  line of the section, which has one \<open>should equal\<close> line per pair and no other form
  of line. The comment beside the pair in the source says that the two results
  should be different.
\<close>

theorem commutator_pair_reported_as_equal:
  "create_equivalence_tests ! 5 = (''R U R' U'' @ apos, ''U R U' R'' @ apos) \<and>
   dropWhile (\<lambda>l. l \<noteq> ''=== Equivalence Tests ==='') (fst main_output) ! 6 =
     apos @ ''R U R' U'' @ apos @ apos @ '' should equal '' @ apos @ ''U R U' R'' @ apos @ apos \<and>
   dropWhile (\<lambda>l. l \<noteq> ''=== Equivalence Tests ==='') (fst main_output) =
     [''=== Equivalence Tests ===''] @
     map (\<lambda>p. apos @ fst p @ apos @ '' should equal '' @ apos @ snd p @ apos)
       create_equivalence_tests @
     ['''', ''Run these tests to find subtle inversion bugs!'']"
  by (simp add: main_output_lines basic_moves_def create_equivalence_tests_def)

text \<open>
  Claim C2 as stated fails: the second sequence of the fifth pair, \<open>(R U R' U')\<close>, is
  in the list and is not a well-formed move sequence, its first token \<open>(R\<close> and its
  last token \<open>U')\<close> carrying a parenthesis.
\<close>

theorem parenthesised_sequence_not_well_formed:
  "(''R U R' U'' @ apos, ''(R U R' U')'') \<in> set create_equivalence_tests \<and>
   \<not> well_formed ''(R U R' U')''"
  by (simp add: create_equivalence_tests_def well_formed_def split_def is_whitespace_def
       is_face_letter_def)

text \<open>
  Claim C2, amended: of the twelve sequence strings of the six pairs, the only one
  that is not a well-formed move sequence is \<open>(R U R' U')\<close>, and it is the well-formed
  sequence \<open>R U R' U'\<close>, the first sequence of its pair, between two parentheses.
\<close>

theorem sequences_well_formed_but_parenthesised:
  "filter (\<lambda>s. \<not> well_formed s) (sequences_of create_equivalence_tests) = [''(R U R' U')''] \<and>
   length (sequences_of create_equivalence_tests) = 12 \<and>
   create_equivalence_tests ! 4 = (''R U R' U'' @ apos, ''(R U R' U')'') \<and>
   ''(R U R' U')'' = ''('' @ (''R U R' U'' @ apos) @ '')'' \<and>
   well_formed (''R U R' U'' @ apos)"
  by (simp add: sequences_of_def create_equivalence_tests_def well_formed_def split_def
       is_whitespace_def is_face_letter_def)

text \<open>
  Claim C3: the list holds the three cancellation pairs \<open>("R R R R", "")\<close>,
  \<open>("R2 R2", "")\<close> and \<open>("R U' U R'", "R R'")\<close>, as its second, third and fourth pair,
  and the script reports each of them as two sequences that should be equal.
\<close>

theorem cancellation_pairs_listed:
  "(''R R R R'', '''') \<in> set create_equivalence_tests \<and>
   (''R2 R2'', '''') \<in> set create_equivalence_tests \<and>
   (''R U' U R'' @ apos, ''R R'' @ apos) \<in> set create_equivalence_tests \<and>
   take 3 (drop 1 create_equivalence_tests) =
     [(''R R R R'', ''''), (''R2 R2'', ''''), (''R U' U R'' @ apos, ''R R'' @ apos)] \<and>
   apos @ ''R R R R'' @ apos @ '' should equal '' @ apos @ apos \<in> set (fst main_output) \<and>
   apos @ ''R2 R2'' @ apos @ '' should equal '' @ apos @ apos \<in> set (fst main_output) \<and>
   apos @ ''R U' U R'' @ apos @ apos @ '' should equal '' @ apos @ ''R R'' @ apos @ apos
     \<in> set (fst main_output)"
  by (simp add: main_output_lines create_equivalence_tests_def)

subsection \<open>The eighteen marked-cube test cases\<close>

text \<open>
  Claim C4: \<open>create_marked_cube_test\<close> returns 18 test cases. Their moves are, in
  order, the 18 tokens made of a face letter from \<open>R L U D F B\<close> alone, followed by an
  apostrophe, or followed by \<open>2\<close>; the tokens are pairwise different, so each
  combination has exactly one test case; and the test case of a token \<open>m\<close> has
  \<open>move\<close> equal to \<open>m\<close> and \<open>name\<close> equal to \<open>marked_cube_\<close> followed by \<open>m\<close>.
\<close>

theorem create_marked_cube_test_cases:
  "length create_marked_cube_test = 18 \<and>
   map (\<lambda>t. (t ''move'', t ''name'')) create_marked_cube_test =
     map (\<lambda>m. (Some m, Some (''marked_cube_'' @ m)))
       (concat (map (\<lambda>f. [[f], [f] @ apos, [f] @ ''2'']) ''RLUDFB'')) \<and>
   distinct (concat (map (\<lambda>f. [[f], [f] @ apos, [f] @ ''2'']) ''RLUDFB''))"
  by (simp add: create_marked_cube_test_map basic_moves_def marked_case_def)

text \<open>
  Claim C10: of the 18 test cases the script reports the first five, those of the
  moves \<open>R\<close>, \<open>R'\<close>, \<open>R2\<close>, \<open>L\<close> and \<open>L'\<close>. The section of the output before the
  equivalence tests is its title and the four lines of each of these five; the test
  cases whose name is printed anywhere in the output are these five, so the other 13
  are never printed; and the run ends without an exception.
\<close>

theorem main_reports_first_five:
  "length create_marked_cube_test = 18 \<and>
   length (drop 5 create_marked_cube_test) = 13 \<and>
   map (\<lambda>t. t ''move'') (take 5 create_marked_cube_test) =
     [Some ''R'', Some (''R'' @ apos), Some ''R2'', Some ''L'', Some (''L'' @ apos)] \<and>
   takeWhile (\<lambda>l. l \<noteq> ''=== Equivalence Tests ==='') (fst main_output) =
     [''=== Marked Cube Tests ==='',
      ''Test: marked_cube_R'', ''Move: R'',
      ''Description: Apply R to marked cube to detect inversions'', '''',
      ''Test: marked_cube_R'' @ apos, ''Move: R'' @ apos,
      ''Description: Apply R' to marked cube to detect inversions'', '''',
      ''Test: marked_cube_R2'', ''Move: R2'',
      ''Description: Apply R2 to marked cube to detect inversions'', '''',
      ''Test: marked_cube_L'', ''Move: L'',
      ''Description: Apply L to marked cube to detect inversions'', '''',
      ''Test: marked_cube_L'' @ apos, ''Move: L'' @ apos,
      ''Description: Apply L' to marked cube to detect inversions'', ''''] \<and>
   map (\<lambda>t. t ''move'')
     (filter (\<lambda>t. case t ''name'' of
                     None \<Rightarrow> False
                   | Some n \<Rightarrow> ''Test: '' @ n \<in> set (fst main_output))
        create_marked_cube_test) =
     [Some ''R'', Some (''R'' @ apos), Some ''R2'', Some ''L'', Some (''L'' @ apos)] \<and>
   snd main_output = None"
proof (intro conjI)
  show "length create_marked_cube_test = 18"
    by (simp add: create_marked_cube_test_map basic_moves_def)
  show "length (drop 5 create_marked_cube_test) = 13"
    by (simp add: create_marked_cube_test_map basic_moves_def)
  show "map (\<lambda>t. t ''move'') (take 5 create_marked_cube_test) =
     [Some ''R'', Some (''R'' @ apos), Some ''R2'', Some ''L'', Some (''L'' @ apos)]"
    by (simp add: create_marked_cube_test_map basic_moves_def marked_case_def)
  show "map (\<lambda>t. t ''move'')
     (filter (\<lambda>t. case t ''name'' of
                     None \<Rightarrow> False
                   | Some n \<Rightarrow> ''Test: '' @ n \<in> set (fst main_output))
        create_marked_cube_test) =
     [Some ''R'', Some (''R'' @ apos), Some ''R2'', Some ''L'', Some (''L'' @ apos)]"
    by (simp add: main_output_lines create_marked_cube_test_map basic_moves_def
          marked_case_def create_equivalence_tests_def)
  show "snd main_output = None"
    by (simp add: main_output_lines)
qed (simp add: main_output_lines basic_moves_def)

subsection \<open>Two calls of a generator\<close>

text \<open>
  Claim C8: neither generator takes an argument, and what a call returns does not
  depend on the store it runs in. From any two stores, the two calls return lists
  with the same elements (the 18 test cases; the six pairs); a call leaves every
  list object that existed before it as it was; and of two calls made one after the
  other the second returns a new list object, different from the first, whose
  elements are those of the first.
\<close>

theorem generators_deterministic:
  "returned (call_create_marked_cube_test st) = returned (call_create_marked_cube_test st') \<and>
   returned (call_create_marked_cube_test st) = Some create_marked_cube_test \<and>
   take (length st) (snd (call_create_marked_cube_test st)) = st \<and>
   (case call_create_marked_cube_test st of
      (r1, st1) \<Rightarrow>
        (case call_create_marked_cube_test st1 of
           (r2, st2) \<Rightarrow> r1 \<noteq> r2 \<and> list_at st2 r1 = list_at st2 r2)) \<and>
   returned (call_create_equivalence_tests ps) = returned (call_create_equivalence_tests ps') \<and>
   returned (call_create_equivalence_tests ps) = Some create_equivalence_tests \<and>
   take (length ps) (snd (call_create_equivalence_tests ps)) = ps \<and>
   (case call_create_equivalence_tests ps of
      (r1, ps1) \<Rightarrow>
        (case call_create_equivalence_tests ps1 of
           (r2, ps2) \<Rightarrow> r1 \<noteq> r2 \<and> list_at ps2 r1 = list_at ps2 r2))"
  by (simp add: call_create_marked_cube_test_eq call_create_equivalence_tests_def
       new_list_def returned_def list_at_def nth_append)

section \<open>Properties of the order scraper\<close>

lemma fold_row_step:
  "fold (row_step space digit) rows out = out @ concat (map (data_lines space digit) rows)"
  by (induction rows arbitrary: out)
     (auto simp: row_step_def data_lines_def has_data_line_def cell_text_def isdigit_def
        print_def lit_def Let_def)

text \<open>
  Claim C7: when the page has a table, the script prints its two heading lines and
  then, for the rows of the table after the first one and in their order, the data
  line of each row that has one: a row adds the line \<open>order<TAB>sequence\<close> exactly when
  it has at least three cells, the stripped text of the first is a non-empty string
  of digits and the stripped text of the third is not empty, and adds nothing
  otherwise. The first row, the header, is skipped whatever it holds.
\<close>

theorem scraper_data_lines:
  assumes "find_tag soup ''table'' = Some table"
  shows "parse_orders space digit soup =
           ([lit (''Order'' @ [CHR 0x09] @ ''3x3x3 Sequence''),
             lit (''-----'' @ [CHR 0x09] @ ''--------------'')] @
            concat (map (data_lines space digit) (drop 1 (find_all table ''tr''))), 0) \<and>
         row_step space digit row out =
           (if has_data_line space digit row
            then out @ [cell_text space row 0 @ [9] @ cell_text space row 2]
            else out)"
proof
  show "parse_orders space digit soup =
           ([lit (''Order'' @ [CHR 0x09] @ ''3x3x3 Sequence''),
             lit (''-----'' @ [CHR 0x09] @ ''--------------'')] @
            concat (map (data_lines space digit) (drop 1 (find_all table ''tr''))), 0)"
    using assms by (simp add: parse_orders_def fold_row_step print_def)
  have "row_step space digit row out = fold (row_step space digit) [row] out"
    by simp
  also have "\<dots> = out @ data_lines space digit row"
    unfolding fold_row_step by simp
  finally show "row_step space digit row out =
           (if has_data_line space digit row
            then out @ [cell_text space row 0 @ [9] @ cell_text space row 2]
            else out)"
    by (simp add: data_lines_def)
qed

theorem scraper_data_lines_witness:
  "find_tag example_page ''table'' = Some example_table \<and>
   map (has_data_line ascii_space ascii_digit) (find_all example_table ''tr'') =
     [False, True, False, False, False, True] \<and>
   parse_orders ascii_space ascii_digit example_page =
     ([lit (''Order'' @ [CHR 0x09] @ ''3x3x3 Sequence''),
       lit (''-----'' @ [CHR 0x09] @ ''--------------''),
       lit (''6'' @ [CHR 0x09] @ ''RU''),
       lit (''1260'' @ [CHR 0x09] @ ''R U2 D' B D'' @ apos)], 0)"
proof (intro conjI)
  show f: "find_tag example_page ''table'' = Some example_table"
    by (simp add: find_tag_def find_all_def example_page_def example_table_def td_def)
  show "map (has_data_line ascii_space ascii_digit) (find_all example_table ''tr'') =
     [False, True, False, False, False, True]"
    by (simp add: find_all_def example_table_def td_def has_data_line_def cell_text_def
          get_text_def strip_def lit_def ascii_space_def ascii_digit_def)
  show "parse_orders ascii_space ascii_digit example_page =
     ([lit (''Order'' @ [CHR 0x09] @ ''3x3x3 Sequence''),
       lit (''-----'' @ [CHR 0x09] @ ''--------------''),
       lit (''6'' @ [CHR 0x09] @ ''RU''),
       lit (''1260'' @ [CHR 0x09] @ ''R U2 D' B D'' @ apos)], 0)"
    unfolding scraper_data_lines [OF f, THEN conjunct1]
    by (simp add: find_all_def example_table_def td_def data_lines_def has_data_line_def
          cell_text_def get_text_def strip_def lit_def ascii_space_def ascii_digit_def)
qed

text \<open>
  Claim C9: when the page has no table element, the script prints the one line
  \<open>No table found!\<close> and exits with status 1; neither the heading lines nor any
  data line is printed.
\<close>

theorem no_table_found:
  assumes "find_all soup ''table'' = []"
  shows "parse_orders space digit soup = ([lit ''No table found!''], 1)"
  using assms by (simp add: parse_orders_def find_tag_def print_def)

theorem no_table_found_witness:
  "find_all page_without_table ''table'' = [] \<and>
   parse_orders ascii_space ascii_digit page_without_table = ([lit ''No table found!''], 1)"
proof -
  have h: "find_all page_without_table ''table'' = []"
    by (simp add: find_all_def page_without_table_def)
  show ?thesis using h no_table_found [OF h] by simp
qed

section \<open>Properties of the move engine\<close>

subsection \<open>Every turn is a permutation of the slots\<close>

lemma cycle4_source: "cycle4 a b c d s = s \<circ> source4 a b c d"
  by (simp add: cycle4_def source4_def fun_eq_iff)

lemma cyc4_on_source4:
  "distinct [a, b, c, d] \<Longrightarrow> cyc4_on {a, b, c, d} (source4 a b c d)"
  by (auto simp: cyc4_on_def source4_def)

lemma cyc4_on_comp:
  assumes f: "cyc4_on A p" and g: "cyc4_on B q" and d: "A \<inter> B = {}"
  shows "cyc4_on (A \<union> B) (p \<circ> q)"
proof -
  have pq: "p (q x) = q (p x)" for x
  proof (cases "x \<in> A")
    case True
    then have "x \<notin> B" "p x \<notin> B" using f d by (auto simp: cyc4_on_def)
    then show ?thesis using g by (simp add: cyc4_on_def)
  next
    case False
    then have px: "p x = x" using f by (simp add: cyc4_on_def)
    show ?thesis
    proof (cases "x \<in> B")
      case True
      then have "q x \<notin> A" using g d by (auto simp: cyc4_on_def)
      then show ?thesis using f px by (simp add: cyc4_on_def)
    next
      case False
      then show ?thesis using g px by (simp add: cyc4_on_def)
    qed
  qed
  have p4: "p (p (p (p x))) = x" and q4: "q (q (q (q x))) = x" for x
    using f g by (simp_all add: cyc4_on_def)
  have "(p \<circ> q) ((p \<circ> q) ((p \<circ> q) ((p \<circ> q) x))) = x" for x
    by (simp add: pq p4 q4)
  moreover have "x \<notin> A \<union> B \<Longrightarrow> (p \<circ> q) x = x" for x
    using f g by (simp add: cyc4_on_def)
  moreover have "x \<in> A \<union> B \<Longrightarrow> (p \<circ> q) x \<in> A \<union> B" for x
    using f g by (auto simp: cyc4_on_def) metis+
  ultimately show ?thesis
    unfolding cyc4_on_def by blast
qed


lemma cyc4_on_five:
  assumes "distinct [a1, b1, c1, d1, a2, b2, c2, d2, a3, b3, c3, d3, a4, b4, c4, d4, a5, b5, c5, d5]"
  shows "cyc4_on ({a1, b1, c1, d1} \<union> ({a2, b2, c2, d2} \<union> ({a3, b3, c3, d3} \<union>
                    ({a4, b4, c4, d4} \<union> {a5, b5, c5, d5}))))
           (source4 a1 b1 c1 d1 \<circ> (source4 a2 b2 c2 d2 \<circ> (source4 a3 b3 c3 d3 \<circ>
              (source4 a4 b4 c4 d4 \<circ> source4 a5 b5 c5 d5))))"
proof -
  have k1: "cyc4_on {a1, b1, c1, d1} (source4 a1 b1 c1 d1)"
    using assms by (intro cyc4_on_source4) simp
  have k2: "cyc4_on {a2, b2, c2, d2} (source4 a2 b2 c2 d2)"
    using assms by (intro cyc4_on_source4) simp
  have k3: "cyc4_on {a3, b3, c3, d3} (source4 a3 b3 c3 d3)"
    using assms by (intro cyc4_on_source4) simp
  have k4: "cyc4_on {a4, b4, c4, d4} (source4 a4 b4 c4 d4)"
    using assms by (intro cyc4_on_source4) simp
  have k5: "cyc4_on {a5, b5, c5, d5} (source4 a5 b5 c5 d5)"
    using assms by (intro cyc4_on_source4) simp
  have d45: "{a4, b4, c4, d4} \<inter> {a5, b5, c5, d5} = {}"
    using assms by simp
  have d3: "{a3, b3, c3, d3} \<inter> ({a4, b4, c4, d4} \<union> {a5, b5, c5, d5}) = {}"
    using assms by simp
  have d2: "{a2, b2, c2, d2} \<inter> ({a3, b3, c3, d3} \<union> ({a4, b4, c4, d4} \<union> {a5, b5, c5, d5})) = {}"
    using assms by simp
  have d1: "{a1, b1, c1, d1} \<inter> ({a2, b2, c2, d2} \<union> ({a3, b3, c3, d3} \<union>
              ({a4, b4, c4, d4} \<union> {a5, b5, c5, d5}))) = {}"
    using assms by simp
  show ?thesis
    by (intro cyc4_on_comp k1 k2 k3 k4 k5 d45 d3 d2 d1)
qed


lemma off_face: "fst a \<noteq> f \<Longrightarrow> a \<noteq> (f, r, c) \<and> (f, r, c) \<noteq> a"
  by auto

lemma turn_cw_source:
  assumes ok: "adjacency_ok adj f"
  shows "\<exists>p A. cyc4_on A p \<and> (\<forall>s::'a cube. turn_cw adj f s = s \<circ> p)"
proof (cases "adj f" rule: layer_slots.cases)
  case (1 a1 a2 a3 b1 b2 b3 c1 c2 c3 d1 d2 d3)
  from ok 1 have dist: "distinct [a1, a2, a3, b1, b2, b3, c1, c2, c3, d1, d2, d3]"
    and off: "fst a1 \<noteq> f" "fst a2 \<noteq> f" "fst a3 \<noteq> f" "fst b1 \<noteq> f" "fst b2 \<noteq> f" "fst b3 \<noteq> f"
      "fst c1 \<noteq> f" "fst c2 \<noteq> f" "fst c3 \<noteq> f" "fst d1 \<noteq> f" "fst d2 \<noteq> f" "fst d3 \<noteq> f"
    by (simp_all add: adjacency_ok_def)
  have "distinct [(f, P0, P0), (f, P0, P2), (f, P2, P2), (f, P2, P0),
                  (f, P0, P1), (f, P1, P2), (f, P2, P1), (f, P1, P0),
                  a1, b1, c1, d1, a2, b2, c2, d2, a3, b3, c3, d3]"
    using dist off [THEN off_face] by simp blast
  from cyc4_on_five [OF this]
  have "cyc4_on ({(f, P0, P0), (f, P0, P2), (f, P2, P2), (f, P2, P0)} \<union>
                 ({(f, P0, P1), (f, P1, P2), (f, P2, P1), (f, P1, P0)} \<union>
                  ({a1, b1, c1, d1} \<union> ({a2, b2, c2, d2} \<union> {a3, b3, c3, d3}))))
          (source4 (f, P0, P0) (f, P0, P2) (f, P2, P2) (f, P2, P0) \<circ>
           (source4 (f, P0, P1) (f, P1, P2) (f, P2, P1) (f, P1, P0) \<circ>
            (source4 a1 b1 c1 d1 \<circ> (source4 a2 b2 c2 d2 \<circ> source4 a3 b3 c3 d3))))" .
  moreover have "turn_cw adj f s =
      s \<circ> (source4 (f, P0, P0) (f, P0, P2) (f, P2, P2) (f, P2, P0) \<circ>
           (source4 (f, P0, P1) (f, P1, P2) (f, P2, P1) (f, P1, P0) \<circ>
            (source4 a1 b1 c1 d1 \<circ> (source4 a2 b2 c2 d2 \<circ> source4 a3 b3 c3 d3))))"
    for s :: "'a cube"
    by (simp add: turn_cw_def rotate_face_def 1 cycle4_source comp_assoc)
  ultimately show ?thesis by blast
qed

lemma turn_ccw_source:
  assumes ok: "adjacency_ok adj f"
  shows "\<exists>p A. cyc4_on A p \<and> (\<forall>s::'a cube. turn_ccw adj f s = s \<circ> p)"
proof (cases "adj f" rule: layer_slots.cases)
  case (1 a1 a2 a3 b1 b2 b3 c1 c2 c3 d1 d2 d3)
  from ok 1 have dist: "distinct [a1, a2, a3, b1, b2, b3, c1, c2, c3, d1, d2, d3]"
    and off: "fst a1 \<noteq> f" "fst a2 \<noteq> f" "fst a3 \<noteq> f" "fst b1 \<noteq> f" "fst b2 \<noteq> f" "fst b3 \<noteq> f"
      "fst c1 \<noteq> f" "fst c2 \<noteq> f" "fst c3 \<noteq> f" "fst d1 \<noteq> f" "fst d2 \<noteq> f" "fst d3 \<noteq> f"
    by (simp_all add: adjacency_ok_def)
  have "distinct [(f, P2, P0), (f, P2, P2), (f, P0, P2), (f, P0, P0),
                  (f, P1, P0), (f, P2, P1), (f, P1, P2), (f, P0, P1),
                  d1, c1, b1, a1, d2, c2, b2, a2, d3, c3, b3, a3]"
    using dist off [THEN off_face] by simp blast
  from cyc4_on_five [OF this]
  have "cyc4_on ({(f, P2, P0), (f, P2, P2), (f, P0, P2), (f, P0, P0)} \<union>
                 ({(f, P1, P0), (f, P2, P1), (f, P1, P2), (f, P0, P1)} \<union>
                  ({d1, c1, b1, a1} \<union> ({d2, c2, b2, a2} \<union> {d3, c3, b3, a3}))))
          (source4 (f, P2, P0) (f, P2, P2) (f, P0, P2) (f, P0, P0) \<circ>
           (source4 (f, P1, P0) (f, P2, P1) (f, P1, P2) (f, P0, P1) \<circ>
            (source4 d1 c1 b1 a1 \<circ> (source4 d2 c2 b2 a2 \<circ> source4 d3 c3 b3 a3))))" .
  moreover have "turn_ccw adj f s =
      s \<circ> (source4 (f, P2, P0) (f, P2, P2) (f, P0, P2) (f, P0, P0) \<circ>
           (source4 (f, P1, P0) (f, P2, P1) (f, P1, P2) (f, P0, P1) \<circ>
            (source4 d1 c1 b1 a1 \<circ> (source4 d2 c2 b2 a2 \<circ> source4 d3 c3 b3 a3))))"
    for s :: "'a cube"
    by (simp add: turn_ccw_def rotate_face_ccw_def 1 cycle4_source comp_assoc)
  ultimately show ?thesis by blast
qed


lemma distinct_all_slots: "distinct all_slots"
  by (simp add: all_slots_def)

lemma set_all_slots: "set all_slots = UNIV"
proof -
  have "x \<in> set all_slots" for x :: slot
  proof (cases x)
    case (fields f r c)
    show ?thesis
      unfolding fields by (cases f; cases r; cases c) (simp_all add: all_slots_def)
  qed
  then show ?thesis by blast
qed

lemma cyc4_on_four: "cyc4_on A p \<Longrightarrow> p (p (p (p x))) = x"
  unfolding cyc4_on_def by blast

lemma cyc4_on_bij:
  assumes "cyc4_on A p"
  shows "bij p"
proof -
  have "p (p (p (p x))) = x" for x
    using assms by (rule cyc4_on_four)
  then have "(p \<circ> p \<circ> p) \<circ> p = id" and "p \<circ> (p \<circ> p \<circ> p) = id"
    by (simp_all add: fun_eq_iff)
  then show ?thesis
    by (rule o_bij)
qed

lemma identities_image: "identities s = image_mset s (mset_set UNIV)"
proof -
  have "mset all_slots = mset_set UNIV"
    using distinct_all_slots set_all_slots by (metis mset_set_set)
  then show ?thesis
    by (simp add: identities_def)
qed

lemma identities_comp:
  assumes "cyc4_on A p"
  shows "identities (s \<circ> p) = identities s"
proof -
  have b: "bij p" using assms by (rule cyc4_on_bij)
  have "identities (s \<circ> p) = image_mset s (image_mset p (mset_set UNIV))"
    by (simp add: identities_image multiset.map_comp)
  also have "image_mset p (mset_set UNIV) = mset_set (p ` UNIV)"
    using b by (intro image_mset_mset_set) (simp add: bij_is_inj)
  also have "p ` UNIV = UNIV"
    using b by (simp add: bij_is_surj)
  finally have "identities (s \<circ> p) = image_mset s (mset_set UNIV)" .
  then show ?thesis
    by (simp only: identities_image [of s])
qed

lemma identities_apply_move:
  assumes "adjacency_ok adj (fst m)"
  shows "identities (apply_move adj m s) = identities s"
proof (cases m)
  case (Pair f k)
  with assms have ok: "adjacency_ok adj f" by simp
  obtain p A where p: "cyc4_on A p" "\<And>t::'a cube. turn_cw adj f t = t \<circ> p"
    using turn_cw_source [OF ok] by blast
  obtain q B where q: "cyc4_on B q" "\<And>t::'a cube. turn_ccw adj f t = t \<circ> q"
    using turn_ccw_source [OF ok] by blast
  show ?thesis
    unfolding Pair by (cases k) (simp_all add: p q identities_comp [OF p(1)] identities_comp [OF q(1)])
qed

subsection \<open>The identity law and the conservation of stickers\<close>

text \<open>
  Claim C5: for every face and every cube state, four clockwise quarter turns of the
  face in succession give back a state equivalent to the one they started from,
  slot by slot (indeed the same state). The adjacency table is any table whose entry
  for the face is as the specification describes it.
\<close>

theorem four_quarter_turns_identity:
  assumes "adjacency_ok adj f"
  shows "equivalent (turn_cw adj f (turn_cw adj f (turn_cw adj f (turn_cw adj f s)))) s \<and>
         apply_sequence adj [(f, Clockwise), (f, Clockwise), (f, Clockwise), (f, Clockwise)] s = s"
proof -
  obtain p A where p: "cyc4_on A p" "\<And>t::'a cube. turn_cw adj f t = t \<circ> p"
    using turn_cw_source [OF assms] by blast
  have "p (p (p (p x))) = x" for x
    using p(1) by (rule cyc4_on_four)
  then have "turn_cw adj f (turn_cw adj f (turn_cw adj f (turn_cw adj f s))) = s"
    by (simp add: p(2) fun_eq_iff)
  then show ?thesis
    by (simp add: equivalent_def apply_sequence_def list_all_iff)
qed

theorem four_quarter_turns_identity_witness:
  "adjacency_ok standard_adjacency Right \<and>
   \<not> equivalent (turn_cw standard_adjacency Right solved_marked) solved_marked \<and>
   equivalent
     (turn_cw standard_adjacency Right (turn_cw standard_adjacency Right
        (turn_cw standard_adjacency Right (turn_cw standard_adjacency Right solved_marked))))
     solved_marked"
proof -
  have ok: "adjacency_ok standard_adjacency Right"
    by (simp add: adjacency_ok_def)
  have "\<not> equivalent (turn_cw standard_adjacency Right solved_marked) solved_marked"
    by (simp add: equivalent_def all_slots_def turn_cw_def rotate_face_def cycle4_def)
  then show ?thesis
    using ok four_quarter_turns_identity [OF ok, of solved_marked] by simp
qed

text \<open>
  Claim C6: for every cube state and every sequence of moves (of faces whose table
  entry is as the specification describes it), the multiset of the 54 sticker
  identities after the sequence is the multiset before it: the moves permute the
  stickers and neither duplicate nor lose one.
\<close>

theorem sticker_identities_conserved:
  assumes "list_all (\<lambda>m. adjacency_ok adj (fst m)) ms"
  shows "identities (apply_sequence adj ms s) = identities s \<and> size (identities s) = 54"
proof
  show "identities (apply_sequence adj ms s) = identities s"
    using assms unfolding apply_sequence_def
    by (induction ms arbitrary: s) (simp_all add: identities_apply_move)
  show "size (identities s) = 54"
    by (simp add: identities_def all_slots_def)
qed

theorem sticker_identities_conserved_witness:
  "list_all (\<lambda>m. adjacency_ok standard_adjacency (fst m))
     [(Right, Clockwise), (Up, HalfTurn), (Front, CounterClockwise)] \<and>
   identities (apply_sequence standard_adjacency
     [(Right, Clockwise), (Up, HalfTurn), (Front, CounterClockwise)] solved_marked) =
   identities solved_marked"
proof -
  have ok: "list_all (\<lambda>m. adjacency_ok standard_adjacency (fst m))
     [(Right, Clockwise), (Up, HalfTurn), (Front, CounterClockwise)]"
    by (simp add: adjacency_ok_def)
  show ?thesis
    using ok sticker_identities_conserved [OF ok, of solved_marked] by simp
qed

end
